theory Spec2Isabelle
  imports Main
begin

section \<open>Configuration values\<close>

text \<open>
  Configuration sources and the parsed \<^verbatim>\<open>data-plyr-config\<close> attribute are JSON values. An
  object is an association list in insertion order, as the keys of a JavaScript object are.
\<close>

datatype json = JNull | JBool bool | JNum int | JStr string | JArr "json list"
  | JObj "(string \<times> json) list"

type_synonym obj = "(string \<times> json) list"

text \<open>Truthiness, as \<^verbatim>\<open>options || {}\<close> tests it.\<close>

fun truthy :: "json \<Rightarrow> bool" where
  "truthy JNull = False"
| "truthy (JBool b) = b"
| "truthy (JNum n) = (n \<noteq> 0)"
| "truthy (JStr s) = (s \<noteq> [])"
| "truthy (JArr xs) = True"
| "truthy (JObj kvs) = True"

text \<open>\<^verbatim>\<open>target[k] = v\<close>: an existing key keeps its position, a new key is appended.\<close>

fun assign :: "string \<Rightarrow> json \<Rightarrow> obj \<Rightarrow> obj" where
  "assign k v [] = [(k, v)]"
| "assign k v ((k', v') # kvs) =
     (if k' = k then (k, v) # kvs else (k', v') # assign k v kvs)"

text \<open>The nested mapping a target holds under a key; empty when it holds none there.\<close>

fun sub_mapping :: "obj \<Rightarrow> string \<Rightarrow> obj" where
  "sub_mapping t k = (case map_of t k of Some (JObj ts) \<Rightarrow> ts | _ \<Rightarrow> [])"

text \<open>
  Modelled from the spec: \<^verbatim>\<open>extend\<close> is imported from \<^verbatim>\<open>./utils/objects\<close>, which is not
  among the sources. Section 4.1 of the specification gives its behaviour: sources are merged
  in order, a later source wins per leaf key, nested mappings are merged recursively rather
  than replaced, and a source that is not a mapping counts as the empty mapping.
  (\<open>extend_objects\<close> stands for \<^verbatim>\<open>extend\<close>, a name the record package takes.)
\<close>

fun merge_obj :: "obj \<Rightarrow> obj \<Rightarrow> obj" where
  "merge_obj t [] = t"
| "merge_obj t ((k, JObj vs) # kvs) =
     merge_obj (assign k (JObj (merge_obj (sub_mapping t k) vs)) t) kvs"
| "merge_obj t ((k, v) # kvs) = merge_obj (assign k v t) kvs"

fun merge :: "obj \<Rightarrow> json \<Rightarrow> obj" where
  "merge t (JObj s) = merge_obj t s"
| "merge t v = t"

definition extend_objects :: "obj \<Rightarrow> json list \<Rightarrow> obj" where
  "extend_objects target sources = foldl merge target sources"

section \<open>Elements, collaborators and the instance\<close>

datatype node = Media | Container

datatype jsval = Plain json | Instance_of string

text \<open>
  Every DOM mutation and every call into a collaborator that the class makes is appended to a
  history, in program order. The collaborators themselves (\<^verbatim>\<open>ui\<close>, \<^verbatim>\<open>media\<close>, \<^verbatim>\<open>captions\<close>,
  \<^verbatim>\<open>Listeners\<close>, \<^verbatim>\<open>triggerEvent\<close>, the provider, ...) are outside the class: a call to one is
  recorded and either returns or raises.
\<close>

datatype action =
    New string
  | Listeners_bind
  | Ui_setup
  | Media_setup
  | Create_element string
  | Wrap
  | Class_add node "json option"
  | Set_attribute node string string
  | Remove_attribute node string
  | Set_ready bool
  | Trigger_event node string
  | Ui_reset
  | Unbind_listeners
  | Callback
  | Ads_play
  | Media_play
  | Media_pause
  | Focus node
  | Captions_set string
  | Pip_toggle "bool option"
  | Airplay_toggle "bool option"
  | Provider_source_change jsval

datatype error = TypeError | SyntaxError | Thrown action

datatype settled = Fulfilled | Rejected error

text \<open>
  The target element, which is also the object the provider properties are read from
  (\<^verbatim>\<open>this.media\<close>). \<open>source\<close> is \<open>None\<close> when \<^verbatim>\<open>media.source\<close> is undefined and otherwise lists
  the methods of the value found there.
\<close>

record element =
  attrs :: "string \<rightharpoonup> string"
  parent_is_element :: bool
  play_fn :: bool
  pause_fn :: bool
  playing :: bool
  source :: "string list option"

text \<open>A capability block: the two flags and the names of the methods the object has.\<close>

record block =
  enabled :: bool
  active :: bool
  methods :: "string list"

datatype container = Parent_element | Wrapper_div

text \<open>
  What the class cannot decide by itself: which collaborator calls raise, the platform's
  \<^verbatim>\<open>JSON.parse\<close> (\<open>None\<close>: it raises) and \<^verbatim>\<open>document.querySelectorAll\<close> (\<open>None\<close>: the
  selector is invalid and it raises), the object each subsystem constructor returns, the value
  of \<^verbatim>\<open>support.touch\<close>, and what \<^verbatim>\<open>media.play()\<close> returns (\<open>None\<close>: not a promise).
\<close>

record env =
  throws :: "action \<Rightarrow> bool"
  json_parse :: "string \<Rightarrow> json option"
  querySelectorAll :: "string \<Rightarrow> element list option"
  constructed :: "string \<Rightarrow> block"
  support_touch :: bool
  media_play_returns :: "settled option"

text \<open>
  The instance. Of the elements cache only \<^verbatim>\<open>elements.container\<close> is kept; \<^verbatim>\<open>timers\<close>,
  \<^verbatim>\<open>attributes\<close> and the other cache slots are written once by the constructor and never read
  in the class.
\<close>

record plyr =
  ready :: bool
  loading :: bool
  failed :: bool
  touch :: bool
  media :: element
  config :: obj
  container :: "container option"
  captions :: block
  fullscreen :: block
  pip :: block
  airplay :: block
  ads :: block
  trace :: "action list"

type_synonym step = "plyr \<Rightarrow> error option \<times> plyr"

definition log :: "action \<Rightarrow> plyr \<Rightarrow> plyr" where
  "log a p = p\<lparr>trace := trace p @ [a]\<rparr>"

text \<open>A call into a collaborator: recorded, then it returns or raises.\<close>

definition ext :: "env \<Rightarrow> action \<Rightarrow> step" where
  "ext e a p = (if throws e a then Some (Thrown a) else None, log a p)"

text \<open>\<^verbatim>\<open>obj.name(...)\<close>: a \<^verbatim>\<open>TypeError\<close> when the object has no such method.\<close>

definition invoke :: "env \<Rightarrow> string list \<Rightarrow> string \<Rightarrow> action \<Rightarrow> step" where
  "invoke e ms name a p = (if name \<in> set ms then ext e a p else (Some TypeError, p))"

definition modify :: "(plyr \<Rightarrow> plyr) \<Rightarrow> step" where
  "modify f p = (None, f p)"

text \<open>Statements in sequence: the first one that raises ends the sequence.\<close>

fun run :: "step list \<Rightarrow> step" where
  "run [] p = (None, p)"
| "run (f # fs) p = (case f p of (Some e, p') \<Rightarrow> (Some e, p') | (None, p') \<Rightarrow> run fs p')"

definition setAttribute :: "string \<Rightarrow> string \<Rightarrow> plyr \<Rightarrow> plyr" where
  "setAttribute name v p =
     log (Set_attribute Media name v) (p\<lparr>media := (media p)\<lparr>attrs := (attrs (media p))(name \<mapsto> v)\<rparr>\<rparr>)"

definition removeAttribute :: "string \<Rightarrow> plyr \<Rightarrow> plyr" where
  "removeAttribute name p =
     log (Remove_attribute Media name) (p\<lparr>media := (media p)\<lparr>attrs := (attrs (media p))(name := None)\<rparr>\<rparr>)"

text \<open>An assignment to \<^verbatim>\<open>this.ready\<close>.\<close>

definition set_ready :: "bool \<Rightarrow> plyr \<Rightarrow> plyr" where
  "set_ready b p = log (Set_ready b) (p\<lparr>ready := b\<rparr>)"

section \<open>The constructor\<close>

datatype target = Selector string | Element element | Collection "element list"

text \<open>
  Lines 46 to 56: a selector is looked up in the document, and of a collection the first
  element is taken; destructuring an empty collection leaves \<^verbatim>\<open>this.media\<close> undefined
  (\<open>None\<close>).
\<close>

fun first_of :: "element list \<Rightarrow> element option" where
  "first_of [] = None"
| "first_of (x # xs) = Some x"

fun resolve_target :: "env \<Rightarrow> target \<Rightarrow> error + element option" where
  "resolve_target e (Selector s) =
     (case querySelectorAll e s of None \<Rightarrow> Inl SyntaxError | Some xs \<Rightarrow> Inr (first_of xs))"
| "resolve_target e (Element x) = Inr (Some x)"
| "resolve_target e (Collection xs) = Inr (first_of xs)"

text \<open>
  Lines 60 to 61, the body of the \<^verbatim>\<open>try\<close>: \<^verbatim>\<open>getAttribute\<close> on an undefined target raises,
  an absent attribute is \<^verbatim>\<open>null\<close> and \<^verbatim>\<open>JSON.parse(null)\<close> is \<^verbatim>\<open>null\<close>.
\<close>

definition parse_fragment :: "env \<Rightarrow> element option \<Rightarrow> error + json" where
  "parse_fragment e m =
     (case m of
        None \<Rightarrow> Inl TypeError
      | Some x \<Rightarrow>
          (case attrs x ''data-plyr-config'' of
             None \<Rightarrow> Inr JNull
           | Some s \<Rightarrow> (case json_parse e s of None \<Rightarrow> Inl SyntaxError | Some v \<Rightarrow> Inr v)))"

text \<open>Lines 59 to 65, with the \<^verbatim>\<open>catch\<close> that turns every error into \<^verbatim>\<open>{}\<close>.\<close>

definition fragment :: "env \<Rightarrow> element option \<Rightarrow> json" where
  "fragment e m = (case parse_fragment e m of Inl err \<Rightarrow> JObj [] | Inr v \<Rightarrow> v)"

definition resolve_config :: "env \<Rightarrow> json \<Rightarrow> json \<Rightarrow> json option \<Rightarrow> element option \<Rightarrow> obj" where
  "resolve_config e defaults static options m =
     extend_objects [] [defaults, static,
                (case options of None \<Rightarrow> JObj [] | Some v \<Rightarrow> if truthy v then v else JObj []),
                fragment e m]"

definition placeholder :: block where
  "placeholder = \<lparr>enabled = False, active = False, methods = []\<rparr>"

definition init :: "env \<Rightarrow> element \<Rightarrow> obj \<Rightarrow> plyr" where
  "init e m cfg =
     \<lparr>ready = False, loading = False, failed = False, touch = support_touch e,
      media = m, config = cfg, container = None,
      captions = placeholder, fullscreen = placeholder, pip = placeholder,
      airplay = placeholder, ads = placeholder, trace = []\<rparr>"

section \<open>The API\<close>

datatype play_result = Null | Future settled

text \<open>
  \<^verbatim>\<open>play\<close>, lines 136 to 152. The second component is the instance once the returned promise
  has settled.
\<close>

definition play :: "env \<Rightarrow> bool option \<Rightarrow> plyr \<Rightarrow> (error + play_result) \<times> plyr" where
  "play e focus p =
     (if \<not> play_fn (media p) then (Inr Null, p)
      else
        (case (if enabled (ads p) \<and> active (ads p)
               then invoke e (methods (ads p)) ''play'' Ads_play p else (None, p)) of
           (Some err, p1) \<Rightarrow> (Inl err, p1)
         | (None, p1) \<Rightarrow>
             (case ext e Media_play p1 of
                (Some err, p2) \<Rightarrow> (Inl err, p2)
              | (None, p2) \<Rightarrow>
                  (case media_play_returns e of
                     None \<Rightarrow> (Inl TypeError, p2)
                   | Some (Rejected err) \<Rightarrow> (Inr (Future (Rejected err)), p2)
                   | Some Fulfilled \<Rightarrow>
                       (if focus \<noteq> Some False
                        then (case container p2 of
                                None \<Rightarrow> (Inr (Future (Rejected TypeError)), p2)
                              | Some c \<Rightarrow>
                                  (case ext e (Focus Container) p2 of
                                     (Some err, p3) \<Rightarrow> (Inr (Future (Rejected err)), p3)
                                   | (None, p3) \<Rightarrow> (Inr (Future Fulfilled), p3)))
                        else (Inr (Future Fulfilled), p2))))))"

text \<open>\<^verbatim>\<open>pause\<close>, lines 157 to 163.\<close>

definition pause :: "env \<Rightarrow> step" where
  "pause e p =
     (if \<not> playing (media p) \<or> \<not> pause_fn (media p) then (None, p)
      else ext e Media_pause p)"

text \<open>
  The accessor \<^verbatim>\<open>source\<close>, lines 313 to 323. Inside the setter \<^verbatim>\<open>this.source\<close> runs the getter,
  so \<^verbatim>\<open>change\<close> is looked up on the value of \<^verbatim>\<open>media.source\<close>.
\<close>

definition source_get :: "plyr \<Rightarrow> string list option" where
  "source_get p = source (media p)"

definition source_set :: "env \<Rightarrow> jsval \<Rightarrow> step" where
  "source_set e v p =
     (case source_get p of
        None \<Rightarrow> (Some TypeError, p)
      | Some ms \<Rightarrow> invoke e ms ''change'' (Provider_source_change v) p)"

text \<open>\<^verbatim>\<open>setCaptions\<close> and the setter of \<^verbatim>\<open>language\<close>, lines 369 to 395.\<close>

definition setCaptions :: "env \<Rightarrow> string \<Rightarrow> step" where
  "setCaptions e language p = ext e (Captions_set language) p"

definition language_set :: "env \<Rightarrow> string \<Rightarrow> step" where
  "language_set e language p = setCaptions e language p"

text \<open>\<^verbatim>\<open>togglePip\<close> and \<^verbatim>\<open>toggleAirplay\<close>, lines 414 to 424.\<close>

definition togglePip :: "env \<Rightarrow> bool option \<Rightarrow> step" where
  "togglePip e input p = invoke e (methods (pip p)) ''toggle'' (Pip_toggle input) p"

definition toggleAirplay :: "env \<Rightarrow> bool option \<Rightarrow> step" where
  "toggleAirplay e input p = invoke e (methods (airplay p)) ''toggle'' (Airplay_toggle input) p"

text \<open>
  \<^verbatim>\<open>destroy\<close>, lines 480 to 499. The executor of the promise runs at once; when a statement
  in it raises, the promise is rejected and the handler given to \<^verbatim>\<open>then\<close> does not run.
  \<open>callback\<close> tells whether a function was passed. The result is how the promise settled and
  the instance after the handler had its turn.
\<close>

definition teardown :: "env \<Rightarrow> step" where
  "teardown e =
     run [ext e Ui_reset,
          modify (setAttribute ''data-plyr'' ''null''),
          modify (removeAttribute ''tabindex''),
          ext e Unbind_listeners,
          modify (set_ready False)]"

definition destroy :: "env \<Rightarrow> bool \<Rightarrow> plyr \<Rightarrow> settled \<times> plyr" where
  "destroy e callback p =
     (case teardown e p of
        (Some err, p') \<Rightarrow> (Rejected err, p')
      | (None, p') \<Rightarrow> (Fulfilled, if callback then log Callback p' else p'))"

section \<open>Setup\<close>

text \<open>
  \<^verbatim>\<open>this.config.classNames.container\<close>: reading a property of \<^verbatim>\<open>undefined\<close> or \<^verbatim>\<open>null\<close>
  raises, reading one of any other value that has none gives \<^verbatim>\<open>undefined\<close>.
\<close>

definition container_class :: "obj \<Rightarrow> error + json option" where
  "container_class cfg =
     (case map_of cfg ''classNames'' of
        None \<Rightarrow> Inl TypeError
      | Some JNull \<Rightarrow> Inl TypeError
      | Some (JObj kvs) \<Rightarrow> Inr (map_of kvs ''container'')
      | Some v \<Rightarrow> Inr None)"

definition resolve_container :: "env \<Rightarrow> step" where
  "resolve_container e p =
     (if parent_is_element (media p) then (None, p\<lparr>container := Some Parent_element\<rparr>)
      else run [modify (log (Create_element ''div'')),
                modify (log (Set_attribute Container ''data-plyr-container'' '''')),
                ext e Wrap]
               (p\<lparr>container := Some Wrapper_div\<rparr>))"

definition add_class :: "env \<Rightarrow> step" where
  "add_class e p =
     (case container_class (config p) of
        Inl err \<Rightarrow> (Some err, p)
      | Inr c \<Rightarrow> ext e (Class_add Container c) p)"

text \<open>
  Line 549 assigns to \<^verbatim>\<open>this.source\<close>, for which the class defines a setter: the new object
  is handed to the setter.
\<close>

definition setup_source :: "env \<Rightarrow> step" where
  "setup_source e = run [ext e (New ''source''), source_set e (Instance_of ''source'')]"

text \<open>
  \<^verbatim>\<open>setup\<close>, lines 517 to 577, in two parts: the statements up to line 570, and the last
  two, which set the flag and trigger the event. \<^verbatim>\<open>this.provider\<close> and \<^verbatim>\<open>this.type\<close> are
  not defined by the class, so the two attributes of line 530 and 531 get the text of
  \<^verbatim>\<open>undefined\<close>. (\<open>setup_plyr\<close> stands for \<^verbatim>\<open>setup\<close>, which is a keyword.)
\<close>

definition wiring :: "env \<Rightarrow> step list" where
  "wiring e =
     [resolve_container e,
      add_class e,
      modify (log (Set_attribute Container ''data-plyr-provider'' ''undefined'')),
      modify (log (Set_attribute Container ''data-plyr-type'' ''undefined'')),
      modify (log (Set_attribute Container ''role'' ''application'')),
      modify (setAttribute ''tabindex'' ''-1''),
      ext e Listeners_bind,
      ext e Ui_setup,
      ext e Media_setup,
      setup_source e,
      ext e (New ''Fullscreen''),
      modify (\<lambda>p. p\<lparr>fullscreen := constructed e ''Fullscreen''\<rparr>),
      ext e (New ''captions''),
      modify (\<lambda>p. p\<lparr>captions := constructed e ''captions''\<rparr>),
      ext e (New ''controls''),
      ext e (New ''Ads''),
      modify (\<lambda>p. p\<lparr>ads := constructed e ''Ads''\<rparr>),
      ext e (New ''PreviewThumbnails''),
      ext e (New ''Storage''),
      ext e (New ''Console'')]"

definition setup_plyr :: "env \<Rightarrow> step" where
  "setup_plyr e =
     run (wiring e @ [modify (set_ready True), ext e (Trigger_event Media ''ready'')])"

text \<open>
  The constructor, lines 34 to 125. With an undefined target the first statement of
  \<^verbatim>\<open>setup\<close> raises, after \<^verbatim>\<open>new Listeners(this)\<close> has run. An exception leaves the caller
  without an instance.
\<close>

definition construct :: "env \<Rightarrow> json \<Rightarrow> json \<Rightarrow> target \<Rightarrow> json option \<Rightarrow> error + plyr" where
  "construct e defaults static tgt options =
     (case resolve_target e tgt of
        Inl err \<Rightarrow> Inl err
      | Inr m \<Rightarrow>
          (let cfg = resolve_config e defaults static options m in
           case m of
             None \<Rightarrow> Inl (if throws e (New ''Listeners'') then Thrown (New ''Listeners'') else TypeError)
           | Some x \<Rightarrow>
               (case run [ext e (New ''Listeners''), setup_plyr e] (init e x cfg) of
                  (Some err, p) \<Rightarrow> Inl err
                | (None, p) \<Rightarrow> Inr p)))"

section \<open>Observations\<close>

text \<open>What a call appended to the history of an instance.\<close>

definition new_actions :: "plyr \<Rightarrow> plyr \<Rightarrow> action list" where
  "new_actions p p' = drop (length (trace p)) (trace p')"

fun is_ready_event :: "action \<Rightarrow> bool" where
  "is_ready_event (Trigger_event n t) = (t = ''ready'')"
| "is_ready_event a = False"

text \<open>
  A statement is calm when, however it ends, it leaves the configuration alone and appends no
  \<^verbatim>\<open>ready\<close> event to the history.
\<close>

definition calm :: "step \<Rightarrow> bool" where
  "calm f = (\<forall>p r p'. f p = (r, p') \<longrightarrow>
      config p' = config p \<and> (\<exists>evs. trace p' = trace p @ evs \<and> filter is_ready_event evs = []))"

text \<open>
  Reading a configuration. A JSON object as the platform builds it has no key twice, at any
  depth (\<open>wf_json\<close>). A leaf is a value that is not a mapping, and \<open>leaf_at\<close> reads the leaf
  at the end of a path of keys. A source is silent on a path when it defines nothing on it: no
  key of the path is bound in it to a leaf, and the last key is not bound at all.
\<close>

fun is_object :: "json \<Rightarrow> bool" where
  "is_object (JObj kvs) = True"
| "is_object v = False"

fun wf_json :: "json \<Rightarrow> bool" where
  "wf_json (JObj kvs) = (distinct (map fst kvs) \<and> list_all wf_json (map snd kvs))"
| "wf_json v = True"

fun leaf_at :: "string list \<Rightarrow> obj \<Rightarrow> json option" where
  "leaf_at [] t = None"
| "leaf_at [k] t =
     (case map_of t k of None \<Rightarrow> None | Some v \<Rightarrow> if is_object v then None else Some v)"
| "leaf_at (k # k' # ks) t = leaf_at (k' # ks) (sub_mapping t k)"

fun silent_on :: "string list \<Rightarrow> obj \<Rightarrow> bool" where
  "silent_on [] s = True"
| "silent_on [k] s = (map_of s k = None)"
| "silent_on (k # k' # ks) s =
     (case map_of s k of
        None \<Rightarrow> True
      | Some (JObj sub) \<Rightarrow> silent_on (k' # ks) sub
      | Some v \<Rightarrow> False)"

text \<open>
  The specification's rule for one more source, in its own words: the later source wins where
  it defines the leaf, the earlier value stays where the later source is silent, and where
  the later source puts something else on the path there is no leaf.
\<close>

definition later_wins :: "string list \<Rightarrow> obj \<Rightarrow> json option \<Rightarrow> json option" where
  "later_wins path s earlier =
     (case leaf_at path s of
        Some v \<Rightarrow> Some v
      | None \<Rightarrow> if silent_on path s then earlier else None)"

section \<open>Example inputs\<close>

text \<open>
  An environment in which no collaborator raises, a media element whose \<^verbatim>\<open>source\<close> has a
  \<^verbatim>\<open>change\<close> method, the same element as the platform provides it (no \<^verbatim>\<open>source\<close>), a default
  configuration, and the instance that the constructor builds from them.
\<close>

definition quiet :: env where
  "quiet =
     \<lparr>throws = (\<lambda>a. False), json_parse = (\<lambda>s. None), querySelectorAll = (\<lambda>s. Some []),
      constructed = (\<lambda>n. \<lparr>enabled = True, active = (n = ''Ads''),
                            methods = [''toggle'', ''exit'', ''play'']\<rparr>),
      support_touch = False, media_play_returns = Some Fulfilled\<rparr>"

definition video :: element where
  "video =
     \<lparr>attrs = Map.empty, parent_is_element = True, play_fn = True, pause_fn = True,
      playing = False, source = Some [''change'']\<rparr>"

definition native_video :: element where
  "native_video = video\<lparr>source := None\<rparr>"

definition base_config :: json where
  "base_config =
     JObj [(''classNames'', JObj [(''container'', JStr ''plyr'')]), (''seekTime'', JNum 10)]"

definition demo_player :: plyr where
  "demo_player =
     \<lparr>ready = True, loading = False, failed = False, touch = False,
      media = video\<lparr>attrs := [''tabindex'' \<mapsto> ''-1'']\<rparr>,
      config = [(''classNames'', JObj [(''container'', JStr ''plyr'')]), (''seekTime'', JNum 10)],
      container = Some Parent_element,
      captions = constructed quiet ''captions'', fullscreen = constructed quiet ''Fullscreen'',
      pip = placeholder, airplay = placeholder, ads = constructed quiet ''Ads'',
      trace =
        [New ''Listeners'', Class_add Container (Some (JStr ''plyr'')),
         Set_attribute Container ''data-plyr-provider'' ''undefined'',
         Set_attribute Container ''data-plyr-type'' ''undefined'',
         Set_attribute Container ''role'' ''application'',
         Set_attribute Media ''tabindex'' ''-1'', Listeners_bind, Ui_setup, Media_setup,
         New ''source'', Provider_source_change (Instance_of ''source''),
         New ''Fullscreen'', New ''captions'', New ''controls'', New ''Ads'',
         New ''PreviewThumbnails'', New ''Storage'', New ''Console'',
         Set_ready True, Trigger_event Media ''ready'']\<rparr>"

text \<open>The same environment, except that \<^verbatim>\<open>ui.reset\<close> raises.\<close>

definition reset_fails :: env where
  "reset_fails = quiet\<lparr>throws := (\<lambda>a. a = Ui_reset)\<rparr>"

text \<open>
  An element whose fragment sets \<^verbatim>\<open>seekTime\<close> to 5 and \<^verbatim>\<open>classNames.container\<close> to
  \<^verbatim>\<open>mine\<close> (\<open>CHR 0x22\<close> is the double quote), an element whose fragment is not JSON, an
  element whose fragment is a JSON array, and an environment whose \<^verbatim>\<open>JSON.parse\<close> reads the
  first and the last.
\<close>

definition fragment_text :: string where
  "fragment_text =
     ''{'' @ [CHR 0x22] @ ''seekTime'' @ [CHR 0x22] @ '':5,'' @ [CHR 0x22] @ ''classNames''
       @ [CHR 0x22] @ '':{'' @ [CHR 0x22] @ ''container'' @ [CHR 0x22] @ '':'' @ [CHR 0x22]
       @ ''mine'' @ [CHR 0x22] @ ''}}''"

definition fragment_value :: obj where
  "fragment_value = [(''seekTime'', JNum 5), (''classNames'', JObj [(''container'', JStr ''mine'')])]"

definition configured_video :: element where
  "configured_video = video\<lparr>attrs := [''data-plyr-config'' \<mapsto> fragment_text]\<rparr>"

definition misconfigured_video :: element where
  "misconfigured_video = video\<lparr>attrs := [''data-plyr-config'' \<mapsto> ''{seekTime'']\<rparr>"

definition array_video :: element where
  "array_video = video\<lparr>attrs := [''data-plyr-config'' \<mapsto> ''[1]'']\<rparr>"

definition parsing :: env where
  "parsing =
     quiet\<lparr>json_parse :=
       (\<lambda>s. if s = fragment_text then Some (JObj fragment_value)
            else if s = ''[1]'' then Some (JArr [JNum 1]) else None)\<rparr>"

section \<open>Sequences of statements\<close>

lemma run_append:
  "run (fs @ gs) p = (case run fs p of (Some err, p') \<Rightarrow> (Some err, p') | (None, p') \<Rightarrow> run gs p')"
  by (induction fs arbitrary: p) (auto split: prod.splits option.splits)

lemma calmI:
  assumes "\<And>p r p'. f p = (r, p') \<Longrightarrow> config p' = config p"
    and "\<And>p r p'. f p = (r, p') \<Longrightarrow> \<exists>evs. trace p' = trace p @ evs \<and> filter is_ready_event evs = []"
  shows "calm f"
  using assms unfolding calm_def by blast

lemma calm_ext: "\<not> is_ready_event a \<Longrightarrow> calm (ext e a)"
  by (rule calmI) (auto simp: ext_def log_def)

lemma calm_log: "\<not> is_ready_event a \<Longrightarrow> calm (modify (log a))"
  by (rule calmI) (auto simp: modify_def log_def)

lemma calm_setAttribute: "calm (modify (setAttribute n v))"
  by (rule calmI) (auto simp: modify_def log_def setAttribute_def)

lemma calm_field: "(\<And>p. config (f p) = config p) \<Longrightarrow> (\<And>p. trace (f p) = trace p) \<Longrightarrow> calm (modify f)"
  by (rule calmI) (auto simp: modify_def)

lemma calm_run: "list_all calm fs \<Longrightarrow> calm (run fs)"
proof (induction fs)
  case Nil
  show ?case by (rule calmI) auto
next
  case (Cons f fs)
  then have f: "calm f" and fs: "calm (run fs)" by auto
  show ?case
  proof (rule calmI)
    fix p r p' assume h: "run (f # fs) p = (r, p')"
    obtain r1 p1 where f1: "f p = (r1, p1)" by (cases "f p")
    from f f1 have c1: "config p1 = config p" unfolding calm_def by blast
    show "config p' = config p"
    proof (cases r1)
      case None
      with h f1 have "run fs p1 = (r, p')" by simp
      with fs have "config p' = config p1" unfolding calm_def by blast
      with c1 show ?thesis by simp
    next
      case (Some err)
      with h f1 have "p' = p1" by simp
      with c1 show ?thesis by simp
    qed
  next
    fix p r p' assume h: "run (f # fs) p = (r, p')"
    obtain r1 p1 where f1: "f p = (r1, p1)" by (cases "f p")
    from f f1 obtain evs where e1: "trace p1 = trace p @ evs" "filter is_ready_event evs = []"
      unfolding calm_def by blast
    show "\<exists>evs. trace p' = trace p @ evs \<and> filter is_ready_event evs = []"
    proof (cases r1)
      case None
      with h f1 have "run fs p1 = (r, p')" by simp
      with fs obtain evs' where "trace p' = trace p1 @ evs'" "filter is_ready_event evs' = []"
        unfolding calm_def by blast
      with e1 have "trace p' = trace p @ (evs @ evs') \<and> filter is_ready_event (evs @ evs') = []"
        by simp
      then show ?thesis by blast
    next
      case (Some err)
      with h f1 have "p' = p1" by simp
      with e1 show ?thesis by blast
    qed
  qed
qed

lemma calm_resolve_container: "calm (resolve_container e)"
proof -
  have r: "calm (run [modify (log (Create_element ''div'')),
                modify (log (Set_attribute Container ''data-plyr-container'' '''')),
                ext e Wrap])"
    by (rule calm_run) (simp add: calm_log calm_ext)
  show ?thesis
  proof (rule calmI)
    fix p r' p' assume h: "resolve_container e p = (r', p')"
    show "config p' = config p"
    proof (cases "parent_is_element (media p)")
      case True with h show ?thesis by (auto simp: resolve_container_def)
    next
      case False
      with h have "run [modify (log (Create_element ''div'')),
                modify (log (Set_attribute Container ''data-plyr-container'' '''')),
                ext e Wrap] (p\<lparr>container := Some Wrapper_div\<rparr>) = (r', p')"
        by (simp add: resolve_container_def)
      with r have "config p' = config (p\<lparr>container := Some Wrapper_div\<rparr>)"
        unfolding calm_def by blast
      then show ?thesis by simp
    qed
  next
    fix p r' p' assume h: "resolve_container e p = (r', p')"
    show "\<exists>evs. trace p' = trace p @ evs \<and> filter is_ready_event evs = []"
    proof (cases "parent_is_element (media p)")
      case True with h show ?thesis by (auto simp: resolve_container_def)
    next
      case False
      with h have "run [modify (log (Create_element ''div'')),
                modify (log (Set_attribute Container ''data-plyr-container'' '''')),
                ext e Wrap] (p\<lparr>container := Some Wrapper_div\<rparr>) = (r', p')"
        by (simp add: resolve_container_def)
      with r have "\<exists>evs. trace p' = trace (p\<lparr>container := Some Wrapper_div\<rparr>) @ evs \<and> filter is_ready_event evs = []"
        unfolding calm_def by blast
      then show ?thesis by simp
    qed
  qed
qed

lemma calm_add_class: "calm (add_class e)"
  by (rule calmI) (auto simp: add_class_def ext_def log_def split: sum.splits)

lemma calm_source_set: "calm (source_set e v)"
  by (rule calmI) (auto simp: source_set_def invoke_def ext_def log_def split: option.splits if_splits)

lemma calm_setup_source: "calm (setup_source e)"
  unfolding setup_source_def by (rule calm_run) (simp add: calm_ext calm_source_set)

lemma calm_wiring: "list_all calm (wiring e)"
  unfolding wiring_def
  by (simp add: calm_resolve_container calm_add_class calm_log calm_setAttribute calm_ext
      calm_setup_source calm_field)

lemma construct_Inr:
  assumes "construct e d st tgt opts = Inr p"
  shows "\<exists>x q. resolve_target e tgt = Inr (Some x)
     \<and> config q = resolve_config e d st opts (Some x)
     \<and> filter is_ready_event (trace q) = []
     \<and> \<not> throws e (Trigger_event Media ''ready'')
     \<and> p = log (Trigger_event Media ''ready'') (set_ready True q)"
proof -
  from assms obtain x where x: "resolve_target e tgt = Inr (Some x)"
    and r: "run [ext e (New ''Listeners''), setup_plyr e] (init e x (resolve_config e d st opts (Some x))) = (None, p)"
    by (auto simp: construct_def Let_def split: sum.splits option.splits prod.splits)
  let ?cfg = "resolve_config e d st opts (Some x)"
  let ?p0 = "init e x ?cfg"
  have all: "run [ext e (New ''Listeners''), setup_plyr e] = run ((ext e (New ''Listeners'') # wiring e) @ [modify (set_ready True), ext e (Trigger_event Media ''ready'')])"
    by (rule ext) (simp add: setup_plyr_def run_append split: prod.splits option.splits)
  have c: "calm (run (ext e (New ''Listeners'') # wiring e))"
    by (rule calm_run) (simp add: calm_wiring calm_ext)
  obtain r1 q where q: "run (ext e (New ''Listeners'') # wiring e) ?p0 = (r1, q)"
    by (cases "run (ext e (New ''Listeners'') # wiring e) ?p0")
  from c q have cq: "config q = config ?p0"
    and "\<exists>evs. trace q = trace ?p0 @ evs \<and> filter is_ready_event evs = []"
    unfolding calm_def by blast+
  then have tq: "filter is_ready_event (trace q) = []" by (auto simp: init_def)
  from r have "run ((ext e (New ''Listeners'') # wiring e) @ [modify (set_ready True), ext e (Trigger_event Media ''ready'')]) ?p0 = (None, p)"
    unfolding all .
  then have "(case run (ext e (New ''Listeners'') # wiring e) ?p0 of
               (Some err, p') \<Rightarrow> (Some err, p')
             | (None, p') \<Rightarrow> run [modify (set_ready True), ext e (Trigger_event Media ''ready'')] p') = (None, p)"
    by (simp only: run_append)
  then have "(case (r1, q) of
               (Some err, p') \<Rightarrow> (Some err, p')
             | (None, p') \<Rightarrow> run [modify (set_ready True), ext e (Trigger_event Media ''ready'')] p') = (None, p)"
    by (simp only: q)
  then have "r1 = None" and "run [modify (set_ready True), ext e (Trigger_event Media ''ready'')] q = (None, p)"
    by (cases r1; simp)+
  then have "\<not> throws e (Trigger_event Media ''ready'')" "p = log (Trigger_event Media ''ready'') (set_ready True q)"
    by (auto simp: modify_def ext_def split: if_splits)
  with x cq tq show ?thesis by (auto simp: init_def)
qed

lemma construct_demo:
  "construct quiet base_config base_config (Element video) None = Inr demo_player"
  by (simp add: construct_def resolve_config_def extend_objects_def fragment_def parse_fragment_def
      base_config_def quiet_def video_def demo_player_def init_def setup_plyr_def wiring_def
      ext_def modify_def log_def set_ready_def setAttribute_def resolve_container_def add_class_def
      container_class_def setup_source_def source_set_def source_get_def invoke_def placeholder_def)

section \<open>Merging\<close>

lemma map_of_assign: "map_of (assign k v t) = (map_of t)(k \<mapsto> v)"
  by (induction t) auto

lemma merge_obj_lookup:
  "distinct (map fst s) \<Longrightarrow>
   map_of (merge_obj t s) k =
     (case map_of s k of
        None \<Rightarrow> map_of t k
      | Some (JObj vs) \<Rightarrow> Some (JObj (merge_obj (sub_mapping t k) vs))
      | Some v \<Rightarrow> Some v)"
proof (induction s arbitrary: t)
  case Nil
  show ?case by simp
next
  case (Cons kv kvs)
  obtain k0 v where kv: "kv = (k0, v)" by (cases kv)
  from Cons.prems kv have d: "distinct (map fst kvs)" and n: "map_of kvs k0 = None"
    by (auto simp: map_of_eq_None_iff)
  note IH = Cons.IH [OF d]
  show ?case
  proof (cases v)
    case (JObj vs)
    show ?thesis
      using IH [of "assign k0 (JObj (merge_obj (sub_mapping t k0) vs)) t"] n
      unfolding kv JObj
      by (cases "k = k0") (auto simp: map_of_assign split: option.splits json.splits)
  qed (use IH [of "assign k0 v t"] n in
       \<open>cases "k = k0"; auto simp: kv map_of_assign split: option.splits json.splits\<close>)+
qed

lemma leaf_at_empty: "leaf_at path [] = None"
  by (induction path "[] :: obj" rule: leaf_at.induct) auto

lemma wf_sub:
  assumes w: "wf_json (JObj s)" and m: "map_of s k = Some (JObj vs)"
  shows "wf_json (JObj vs)"
proof -
  from m have "(k, JObj vs) \<in> set s" by (rule map_of_SomeD)
  then have mem: "JObj vs \<in> set (map snd s)" by force
  from w have "\<forall>v \<in> set (map snd s). wf_json v" by (simp add: list_all_iff)
  with mem show ?thesis by blast
qed

lemma leaf_at_merge_obj:
  "wf_json (JObj s) \<Longrightarrow> leaf_at path (merge_obj t s) = later_wins path s (leaf_at path t)"
proof (induction path arbitrary: t s)
  case Nil
  show ?case by (simp add: later_wins_def)
next
  case (Cons k rest)
  note wf = Cons.prems and IH = Cons.IH
  from wf have d: "distinct (map fst s)" by simp
  note look = merge_obj_lookup [OF d, of t k]
  show ?case
  proof (cases rest)
    case Nil
    show ?thesis using look unfolding Nil
      by (auto simp: later_wins_def split: option.splits json.splits)
  next
    case tail: (Cons k' ks)
    show ?thesis
    proof (cases "map_of s k")
      case None
      with look show ?thesis unfolding tail
        by (simp add: later_wins_def leaf_at_empty)
    next
      case (Some v)
      show ?thesis
      proof (cases v)
        case (JObj vs)
        from wf_sub [OF wf] Some JObj have w: "wf_json (JObj vs)" by blast
        from IH [OF w, of "sub_mapping t k"] look Some JObj
        show ?thesis unfolding tail by (simp add: later_wins_def)
      qed (use look Some in \<open>auto simp: later_wins_def leaf_at_empty tail\<close>)
    qed
  qed
qed

section \<open>The claims\<close>

text \<open>
  C1. The configuration attached at construction is the merge of defaults, static overrides,
  caller options and the fragment of the element, in that order: at every path of keys the
  leaf of the result is the one that the rule \<open>later_wins\<close> gives when the four sources are
  taken one after the other (three, when no options are passed). When the target is
  undefined, the attribute is absent, its text does not parse or it parses to something that
  is not a mapping, the result is the merge of the first three sources alone, with the same
  rule per leaf; the function has no error result. Options that are absent or falsy count
  as the empty mapping (\<^verbatim>\<open>options || {}\<close>). The instance that the constructor returns
  carries this configuration. The sources are JSON objects without repeated keys.
\<close>

theorem config_merge_order:
  assumes "wf_json (JObj d)" and "wf_json (JObj st)" and "wf_json (JObj opts)" and "wf_json (JObj f)"
  shows
    "(attrs x ''data-plyr-config'' = Some raw \<and> json_parse e raw = Some (JObj f) \<longrightarrow>
        leaf_at path (resolve_config e (JObj d) (JObj st) (Some (JObj opts)) (Some x)) =
          later_wins path f (later_wins path opts (later_wins path st (later_wins path d None)))
        \<and> leaf_at path (resolve_config e (JObj d) (JObj st) None (Some x)) =
          later_wins path f (later_wins path st (later_wins path d None)))
     \<and> (m = None \<or> m = Some x \<and>
          (attrs x ''data-plyr-config'' = None
           \<or> attrs x ''data-plyr-config'' = Some raw \<and> json_parse e raw = None
           \<or> attrs x ''data-plyr-config'' = Some raw \<and> json_parse e raw = Some v
               \<and> \<not> is_object v) \<longrightarrow>
        resolve_config e (JObj d) (JObj st) (Some (JObj opts)) m =
          extend_objects [] [JObj d, JObj st, JObj opts]
        \<and> (\<forall>path. leaf_at path (resolve_config e (JObj d) (JObj st) (Some (JObj opts)) m) =
              later_wins path opts (later_wins path st (later_wins path d None)))
        \<and> resolve_config e (JObj d) (JObj st) None m = extend_objects [] [JObj d, JObj st])
     \<and> (options = None \<or> options = Some w \<and> \<not> truthy w \<longrightarrow>
        resolve_config e defaults static options m =
          resolve_config e defaults static (Some (JObj [])) m
        \<and> resolve_config e defaults static options m =
          extend_objects [] [defaults, static, fragment e m])
     \<and> (construct e defaults static tgt options = Inr p \<longrightarrow>
        (\<exists>y. resolve_target e tgt = Inr (Some y)
           \<and> config p = resolve_config e defaults static options (Some y)))"
proof (intro conjI impI allI)
  assume h: "attrs x ''data-plyr-config'' = Some raw \<and> json_parse e raw = Some (JObj f)"
  then have fr: "fragment e (Some x) = JObj f"
    by (simp add: fragment_def parse_fragment_def)
  then have "resolve_config e (JObj d) (JObj st) (Some (JObj opts)) (Some x) =
      merge_obj (merge_obj (merge_obj (merge_obj [] d) st) opts) f"
    by (simp add: resolve_config_def extend_objects_def)
  then show "leaf_at path (resolve_config e (JObj d) (JObj st) (Some (JObj opts)) (Some x)) =
          later_wins path f (later_wins path opts (later_wins path st (later_wins path d None)))"
    using assms by (simp add: leaf_at_merge_obj leaf_at_empty)
  from fr have "resolve_config e (JObj d) (JObj st) None (Some x) =
      merge_obj (merge_obj (merge_obj [] d) st) f"
    by (simp add: resolve_config_def extend_objects_def)
  then show "leaf_at path (resolve_config e (JObj d) (JObj st) None (Some x)) =
          later_wins path f (later_wins path st (later_wins path d None))"
    using assms by (simp add: leaf_at_merge_obj leaf_at_empty)
next
  assume h: "m = None \<or> m = Some x \<and>
          (attrs x ''data-plyr-config'' = None
           \<or> attrs x ''data-plyr-config'' = Some raw \<and> json_parse e raw = None
           \<or> attrs x ''data-plyr-config'' = Some raw \<and> json_parse e raw = Some v
               \<and> \<not> is_object v)"
  then have fr: "\<not> is_object (fragment e m) \<or> fragment e m = JObj []"
    by (auto simp: fragment_def parse_fragment_def)
  then have mg: "\<And>t. merge t (fragment e m) = t"
    by (cases "fragment e m") auto
  show three: "resolve_config e (JObj d) (JObj st) (Some (JObj opts)) m =
          extend_objects [] [JObj d, JObj st, JObj opts]"
    by (simp add: resolve_config_def extend_objects_def mg)
  show "resolve_config e (JObj d) (JObj st) None m = extend_objects [] [JObj d, JObj st]"
    by (simp add: resolve_config_def extend_objects_def mg)
  fix path'
  show "leaf_at path' (resolve_config e (JObj d) (JObj st) (Some (JObj opts)) m) =
              later_wins path' opts (later_wins path' st (later_wins path' d None))"
    unfolding three using assms
    by (simp add: extend_objects_def leaf_at_merge_obj leaf_at_empty)
next
  assume h: "options = None \<or> options = Some w \<and> \<not> truthy w"
  then show "resolve_config e defaults static options m =
          resolve_config e defaults static (Some (JObj [])) m"
    by (auto simp: resolve_config_def)
  from h show "resolve_config e defaults static options m =
          extend_objects [] [defaults, static, fragment e m]"
    by (auto simp: resolve_config_def extend_objects_def)
next
  assume "construct e defaults static tgt options = Inr p"
  from construct_Inr [OF this]
  show "\<exists>y. resolve_target e tgt = Inr (Some y)
           \<and> config p = resolve_config e defaults static options (Some y)"
    by (auto simp: log_def set_ready_def)
qed

text \<open>
  C1, at concrete inputs: a fragment that parses overrides \<^verbatim>\<open>seekTime\<close> and
  \<^verbatim>\<open>classNames.container\<close> while \<^verbatim>\<open>volume\<close> comes from the options; a fragment that does not
  parse, an absent one, one that is an array and an undefined target leave the merge of the
  other three; absent and \<^verbatim>\<open>null\<close> options contribute nothing; and the constructed instance
  holds the merged configuration.
\<close>

theorem config_merge_order_witness:
  "wf_json base_config \<and> wf_json (JObj [(''seekTime'', JNum 7), (''volume'', JNum 1)])
   \<and> wf_json (JObj fragment_value)
   \<and> leaf_at [''classNames'', ''container'']
        (resolve_config parsing base_config base_config
           (Some (JObj [(''seekTime'', JNum 7), (''volume'', JNum 1)])) (Some configured_video))
      = Some (JStr ''mine'')
   \<and> leaf_at [''seekTime'']
        (resolve_config parsing base_config base_config
           (Some (JObj [(''seekTime'', JNum 7), (''volume'', JNum 1)])) (Some configured_video))
      = Some (JNum 5)
   \<and> leaf_at [''volume'']
        (resolve_config parsing base_config base_config
           (Some (JObj [(''seekTime'', JNum 7), (''volume'', JNum 1)])) (Some configured_video))
      = Some (JNum 1)
   \<and> leaf_at [''seekTime'']
        (resolve_config parsing base_config base_config None (Some configured_video))
      = Some (JNum 5)
   \<and> resolve_config parsing base_config base_config
        (Some (JObj [(''seekTime'', JNum 7), (''volume'', JNum 1)])) (Some misconfigured_video)
      = [(''classNames'', JObj [(''container'', JStr ''plyr'')]), (''seekTime'', JNum 7),
         (''volume'', JNum 1)]
   \<and> resolve_config parsing base_config base_config
        (Some (JObj [(''seekTime'', JNum 7), (''volume'', JNum 1)])) (Some video)
      = [(''classNames'', JObj [(''container'', JStr ''plyr'')]), (''seekTime'', JNum 7),
         (''volume'', JNum 1)]
   \<and> resolve_config parsing base_config base_config
        (Some (JObj [(''seekTime'', JNum 7), (''volume'', JNum 1)])) (Some array_video)
      = [(''classNames'', JObj [(''container'', JStr ''plyr'')]), (''seekTime'', JNum 7),
         (''volume'', JNum 1)]
   \<and> resolve_config parsing base_config base_config
        (Some (JObj [(''seekTime'', JNum 7), (''volume'', JNum 1)])) None
      = [(''classNames'', JObj [(''container'', JStr ''plyr'')]), (''seekTime'', JNum 7),
         (''volume'', JNum 1)]
   \<and> resolve_config parsing base_config base_config None (Some configured_video)
      = [(''classNames'', JObj [(''container'', JStr ''mine'')]), (''seekTime'', JNum 5)]
   \<and> resolve_config parsing base_config base_config (Some JNull) (Some configured_video)
      = [(''classNames'', JObj [(''container'', JStr ''mine'')]), (''seekTime'', JNum 5)]
   \<and> resolve_config parsing base_config base_config None (Some video)
      = [(''classNames'', JObj [(''container'', JStr ''plyr'')]), (''seekTime'', JNum 10)]
   \<and> (\<exists>p. construct parsing base_config base_config (Element configured_video)
             (Some (JObj [(''seekTime'', JNum 7), (''volume'', JNum 1)])) = Inr p
          \<and> config p = [(''classNames'', JObj [(''container'', JStr ''mine'')]),
                        (''seekTime'', JNum 5), (''volume'', JNum 1)])"
proof -
  let ?d = "[(''classNames'', JObj [(''container'', JStr ''plyr'')]), (''seekTime'', JNum 10)]"
  let ?o = "[(''seekTime'', JNum 7), (''volume'', JNum 1)]"
  have wf: "wf_json (JObj ?d)" "wf_json (JObj ?o)" "wf_json (JObj fragment_value)"
    by (simp_all add: fragment_value_def)
  have at: "attrs configured_video ''data-plyr-config'' = Some fragment_text"
    "json_parse parsing fragment_text = Some (JObj fragment_value)"
    by (simp_all add: configured_video_def parsing_def)
  have bad: "attrs misconfigured_video ''data-plyr-config'' = Some ''{seekTime''"
    "json_parse parsing ''{seekTime'' = None"
    by (simp_all add: misconfigured_video_def parsing_def fragment_text_def)
  have absent: "attrs video ''data-plyr-config'' = None"
    by (simp add: video_def)
  have arr: "attrs array_video ''data-plyr-config'' = Some ''[1]''"
    "json_parse parsing ''[1]'' = Some (JArr [JNum 1])" "\<not> is_object (JArr [JNum 1])"
    by (simp_all add: array_video_def parsing_def fragment_text_def)
  have fr: "fragment parsing (Some configured_video) = JObj fragment_value"
    "fragment parsing (Some video) = JNull"
    using at absent by (simp_all add: fragment_def parse_fragment_def)
  have built: "\<exists>p. construct parsing (JObj ?d) (JObj ?d) (Element configured_video) (Some (JObj ?o)) = Inr p"
    using fr(1)
    by (simp add: construct_def resolve_config_def extend_objects_def fragment_value_def
      parsing_def configured_video_def
      quiet_def video_def init_def setup_plyr_def wiring_def
      ext_def modify_def log_def set_ready_def setAttribute_def resolve_container_def add_class_def
      container_class_def setup_source_def source_set_def source_get_def invoke_def placeholder_def)
  note cmo = config_merge_order [OF wf(1) wf(1) wf(2) wf(3)]
  note a = cmo [where x = configured_video and raw = fragment_text and e = parsing
      and options = None and defaults = "JObj ?d" and static = "JObj ?d"
      and m = "Some configured_video"]
  note a1 = a [where path = "[''classNames'', ''container'']"]
  note a2 = a [where path = "[''seekTime'']"]
  note a3 = a [where path = "[''volume'']"]
  note b = cmo [where x = misconfigured_video and raw = "''{seekTime''" and e = parsing
      and m = "Some misconfigured_video"]
  note c = cmo [where x = video and e = parsing and m = "Some video" and options = None
      and defaults = "JObj ?d" and static = "JObj ?d"]
  note d = cmo [where x = array_video and raw = "''[1]''" and e = parsing
      and m = "Some array_video" and v = "JArr [JNum 1]"]
  note n = cmo [where e = parsing and m = None]
  note f = cmo [where e = parsing and m = "Some configured_video" and options = "Some JNull"
      and w = JNull and defaults = "JObj ?d" and static = "JObj ?d"]
  have "leaf_at [''classNames'', ''container'']
        (resolve_config parsing (JObj ?d) (JObj ?d) (Some (JObj ?o)) (Some configured_video))
      = later_wins [''classNames'', ''container''] fragment_value
          (later_wins [''classNames'', ''container''] ?o
             (later_wins [''classNames'', ''container''] ?d
                (later_wins [''classNames'', ''container''] ?d None)))"
    using a1 at by blast
  also have "\<dots> = Some (JStr ''mine'')"
    by (simp add: later_wins_def fragment_value_def)
  finally have 1: "leaf_at [''classNames'', ''container'']
        (resolve_config parsing (JObj ?d) (JObj ?d) (Some (JObj ?o)) (Some configured_video))
      = Some (JStr ''mine'')" .
  have "leaf_at [''seekTime'']
        (resolve_config parsing (JObj ?d) (JObj ?d) (Some (JObj ?o)) (Some configured_video))
      = later_wins [''seekTime''] fragment_value
          (later_wins [''seekTime''] ?o
             (later_wins [''seekTime''] ?d (later_wins [''seekTime''] ?d None)))"
    using a2 at by blast
  also have "\<dots> = Some (JNum 5)"
    by (simp add: later_wins_def fragment_value_def)
  finally have 2: "leaf_at [''seekTime'']
        (resolve_config parsing (JObj ?d) (JObj ?d) (Some (JObj ?o)) (Some configured_video))
      = Some (JNum 5)" .
  have "leaf_at [''volume'']
        (resolve_config parsing (JObj ?d) (JObj ?d) (Some (JObj ?o)) (Some configured_video))
      = later_wins [''volume''] fragment_value
          (later_wins [''volume''] ?o
             (later_wins [''volume''] ?d (later_wins [''volume''] ?d None)))"
    using a3 at by blast
  also have "\<dots> = Some (JNum 1)"
    by (simp add: later_wins_def fragment_value_def)
  finally have 3: "leaf_at [''volume'']
        (resolve_config parsing (JObj ?d) (JObj ?d) (Some (JObj ?o)) (Some configured_video))
      = Some (JNum 1)" .
  have "leaf_at [''seekTime'']
        (resolve_config parsing (JObj ?d) (JObj ?d) None (Some configured_video))
      = later_wins [''seekTime''] fragment_value
          (later_wins [''seekTime''] ?d (later_wins [''seekTime''] ?d None))"
    using a2 at by blast
  also have "\<dots> = Some (JNum 5)"
    by (simp add: later_wins_def fragment_value_def)
  finally have 4: "leaf_at [''seekTime'']
        (resolve_config parsing (JObj ?d) (JObj ?d) None (Some configured_video))
      = Some (JNum 5)" .
  have three: "extend_objects [] [JObj ?d, JObj ?d, JObj ?o]
      = [(''classNames'', JObj [(''container'', JStr ''plyr'')]), (''seekTime'', JNum 7), (''volume'', JNum 1)]"
    by (simp add: extend_objects_def)
  have "resolve_config parsing (JObj ?d) (JObj ?d) (Some (JObj ?o)) (Some misconfigured_video)
      = extend_objects [] [JObj ?d, JObj ?d, JObj ?o]"
    using b bad by blast
  then have 5: "resolve_config parsing (JObj ?d) (JObj ?d) (Some (JObj ?o)) (Some misconfigured_video)
      = [(''classNames'', JObj [(''container'', JStr ''plyr'')]), (''seekTime'', JNum 7), (''volume'', JNum 1)]"
    by (simp only: three)
  have "resolve_config parsing (JObj ?d) (JObj ?d) (Some (JObj ?o)) (Some video)
      = extend_objects [] [JObj ?d, JObj ?d, JObj ?o]"
    using c absent by blast
  then have 6: "resolve_config parsing (JObj ?d) (JObj ?d) (Some (JObj ?o)) (Some video)
      = [(''classNames'', JObj [(''container'', JStr ''plyr'')]), (''seekTime'', JNum 7), (''volume'', JNum 1)]"
    by (simp only: three)
  have "resolve_config parsing (JObj ?d) (JObj ?d) (Some (JObj ?o)) (Some array_video)
      = extend_objects [] [JObj ?d, JObj ?d, JObj ?o]"
    using d arr by blast
  then have 7: "resolve_config parsing (JObj ?d) (JObj ?d) (Some (JObj ?o)) (Some array_video)
      = [(''classNames'', JObj [(''container'', JStr ''plyr'')]), (''seekTime'', JNum 7), (''volume'', JNum 1)]"
    by (simp only: three)
  have "resolve_config parsing (JObj ?d) (JObj ?d) (Some (JObj ?o)) None
      = extend_objects [] [JObj ?d, JObj ?d, JObj ?o]"
    using n by blast
  then have 8: "resolve_config parsing (JObj ?d) (JObj ?d) (Some (JObj ?o)) None
      = [(''classNames'', JObj [(''container'', JStr ''plyr'')]), (''seekTime'', JNum 7), (''volume'', JNum 1)]"
    by (simp only: three)
  have "resolve_config parsing (JObj ?d) (JObj ?d) None (Some configured_video)
      = extend_objects [] [JObj ?d, JObj ?d, fragment parsing (Some configured_video)]"
    using a1 by blast
  also have "\<dots> = [(''classNames'', JObj [(''container'', JStr ''mine'')]), (''seekTime'', JNum 5)]"
    unfolding fr by (simp add: extend_objects_def fragment_value_def)
  finally have 9: "resolve_config parsing (JObj ?d) (JObj ?d) None (Some configured_video)
      = [(''classNames'', JObj [(''container'', JStr ''mine'')]), (''seekTime'', JNum 5)]" .
  have nt: "\<not> truthy JNull" by simp
  have "resolve_config parsing (JObj ?d) (JObj ?d) (Some JNull) (Some configured_video)
      = extend_objects [] [JObj ?d, JObj ?d, fragment parsing (Some configured_video)]"
    using f nt by blast
  also have "\<dots> = [(''classNames'', JObj [(''container'', JStr ''mine'')]), (''seekTime'', JNum 5)]"
    unfolding fr by (simp add: extend_objects_def fragment_value_def)
  finally have 10: "resolve_config parsing (JObj ?d) (JObj ?d) (Some JNull) (Some configured_video)
      = [(''classNames'', JObj [(''container'', JStr ''mine'')]), (''seekTime'', JNum 5)]" .
  have "resolve_config parsing (JObj ?d) (JObj ?d) None (Some video)
      = extend_objects [] [JObj ?d, JObj ?d, fragment parsing (Some video)]"
    using c by blast
  also have "\<dots> = [(''classNames'', JObj [(''container'', JStr ''plyr'')]), (''seekTime'', JNum 10)]"
    unfolding fr by (simp add: extend_objects_def)
  finally have 11: "resolve_config parsing (JObj ?d) (JObj ?d) None (Some video)
      = [(''classNames'', JObj [(''container'', JStr ''plyr'')]), (''seekTime'', JNum 10)]" .
  have 12: "\<exists>p. construct parsing (JObj ?d) (JObj ?d) (Element configured_video) (Some (JObj ?o)) = Inr p
          \<and> config p = [(''classNames'', JObj [(''container'', JStr ''mine'')]),
                        (''seekTime'', JNum 5), (''volume'', JNum 1)]"
  proof -
    from built obtain p where p: "construct parsing (JObj ?d) (JObj ?d) (Element configured_video) (Some (JObj ?o)) = Inr p"
      by blast
    have "config p = resolve_config parsing (JObj ?d) (JObj ?d) (Some (JObj ?o)) (Some configured_video)"
      using cmo [where e = parsing and options = "Some (JObj ?o)" and defaults = "JObj ?d"
          and static = "JObj ?d" and tgt = "Element configured_video" and p = p] p
      by simp
    also have "\<dots> = [(''classNames'', JObj [(''container'', JStr ''mine'')]),
                        (''seekTime'', JNum 5), (''volume'', JNum 1)]"
      using fr(1) by (simp add: resolve_config_def extend_objects_def fragment_value_def)
    finally show ?thesis using p by blast
  qed
  show ?thesis
    unfolding base_config_def
    using wf 1 2 3 4 5 6 7 8 9 10 11 12 by (intro conjI)
qed

text \<open>
  C2, on the instance built from the example inputs. After \<^verbatim>\<open>destroy\<close> the promise is
  fulfilled, \<^verbatim>\<open>ready\<close> is false and \<^verbatim>\<open>tabindex\<close> is gone, but the element carries the
  attribute \<^verbatim>\<open>data-plyr\<close> with the text \<^verbatim>\<open>null\<close>: line 487 sets the attribute where line
  488 removes one.
\<close>

theorem destroy_leaves_marker:
  "fst (destroy quiet True demo_player) = Fulfilled
   \<and> \<not> ready (snd (destroy quiet True demo_player))
   \<and> attrs (media (snd (destroy quiet True demo_player))) ''tabindex'' = None
   \<and> attrs (media (snd (destroy quiet True demo_player))) ''data-plyr'' = Some ''null''"
  by (simp add: destroy_def teardown_def ext_def modify_def log_def set_ready_def
      setAttribute_def removeAttribute_def quiet_def demo_player_def video_def)

text \<open>
  C3 as stated fails: the one \<^verbatim>\<open>ready\<close> event of a construction has the media element as its
  target (line 576), and none is triggered on the container.
\<close>

theorem ready_event_on_media:
  "construct quiet base_config base_config (Element video) None = Inr demo_player
   \<and> filter is_ready_event (trace demo_player) = [Trigger_event Media ''ready'']
   \<and> Trigger_event Container ''ready'' \<notin> set (trace demo_player)"
  using construct_demo by (simp add: demo_player_def)

text \<open>
  C3, amended. Every successful construction triggers the \<^verbatim>\<open>ready\<close> event exactly once, on
  the media element, as its last action and right after \<^verbatim>\<open>ready\<close> was set to true.
\<close>

theorem ready_event_once_after_ready:
  assumes "construct e defaults static tgt options = Inr p"
  shows "ready p
     \<and> filter is_ready_event (trace p) = [Trigger_event Media ''ready'']
     \<and> (\<exists>pre. trace p = pre @ [Set_ready True, Trigger_event Media ''ready''])"
  using construct_Inr [OF assms] by (auto simp: log_def set_ready_def)

text \<open>
  C3, amended, at the example inputs.
\<close>

theorem ready_event_once_after_ready_witness:
  "construct quiet base_config base_config (Element video) None = Inr demo_player
   \<and> ready demo_player
   \<and> filter is_ready_event (trace demo_player) = [Trigger_event Media ''ready'']
   \<and> (\<exists>pre. trace demo_player = pre @ [Set_ready True, Trigger_event Media ''ready''])"
  using construct_demo ready_event_once_after_ready [OF construct_demo] by simp

text \<open>
  C4. \<^verbatim>\<open>play\<close> returns \<^verbatim>\<open>null\<close> and does nothing when the provider has no \<^verbatim>\<open>play\<close>
  function. Otherwise, with the ads block enabled and active and no call raising, it calls
  \<^verbatim>\<open>ads.play\<close>, then the provider's \<^verbatim>\<open>play\<close>, returns a promise, and when the provider's
  promise is fulfilled and \<^verbatim>\<open>focus\<close> is not false it focuses the container last; with
  \<^verbatim>\<open>focus\<close> false nothing is focused, and with the ads block not both enabled and active
  \<^verbatim>\<open>ads.play\<close> is not called. Whenever the ads block is enabled and active and has a \<^verbatim>\<open>play\<close>
  method, \<^verbatim>\<open>ads.play\<close> is the first call made, and the provider's \<^verbatim>\<open>play\<close> follows it
  directly unless \<^verbatim>\<open>ads.play\<close> raised. A rejection of the provider's promise is the
  rejection of the returned one. In every case in which the provider's \<^verbatim>\<open>play\<close> is called
  with the ads block enabled and active, \<^verbatim>\<open>ads.play\<close> was called just before; and a fulfilled
  promise with \<^verbatim>\<open>focus\<close> not false ends with the focus on the container.
\<close>

theorem play_contract:
  "(\<not> play_fn (media p) \<longrightarrow> play e focus p = (Inr Null, p))
   \<and> (play_fn (media p) \<and> enabled (ads p) \<and> active (ads p) \<and> ''play'' \<in> set (methods (ads p))
        \<and> \<not> throws e Ads_play \<and> \<not> throws e Media_play \<and> media_play_returns e = Some Fulfilled
        \<and> focus \<noteq> Some False \<and> container p \<noteq> None \<and> \<not> throws e (Focus Container)
      \<longrightarrow> play e focus p =
            (Inr (Future Fulfilled), p\<lparr>trace := trace p @ [Ads_play, Media_play, Focus Container]\<rparr>))
   \<and> (play_fn (media p) \<and> enabled (ads p) \<and> active (ads p) \<and> ''play'' \<in> set (methods (ads p))
        \<and> \<not> throws e Ads_play \<and> \<not> throws e Media_play \<and> media_play_returns e = Some Fulfilled
        \<and> focus = Some False
      \<longrightarrow> play e focus p =
            (Inr (Future Fulfilled), p\<lparr>trace := trace p @ [Ads_play, Media_play]\<rparr>))
   \<and> (play_fn (media p) \<and> \<not> (enabled (ads p) \<and> active (ads p))
        \<and> \<not> throws e Media_play \<and> media_play_returns e = Some Fulfilled
        \<and> focus \<noteq> Some False \<and> container p \<noteq> None \<and> \<not> throws e (Focus Container)
      \<longrightarrow> play e focus p =
            (Inr (Future Fulfilled), p\<lparr>trace := trace p @ [Media_play, Focus Container]\<rparr>))
   \<and> (play_fn (media p) \<and> enabled (ads p) \<and> active (ads p) \<and> ''play'' \<in> set (methods (ads p))
      \<longrightarrow> (\<exists>rest. new_actions p (snd (play e focus p)) = Ads_play # rest)
          \<and> (\<not> throws e Ads_play \<longrightarrow>
               (\<exists>rest. new_actions p (snd (play e focus p)) = Ads_play # Media_play # rest)))
   \<and> (play_fn (media p)
        \<and> (enabled (ads p) \<and> active (ads p) \<longrightarrow>
             ''play'' \<in> set (methods (ads p)) \<and> \<not> throws e Ads_play)
        \<and> \<not> throws e Media_play \<and> media_play_returns e = Some s
      \<longrightarrow> (\<exists>r. fst (play e focus p) = Inr (Future r))
          \<and> (\<forall>err. s = Rejected err \<longrightarrow> fst (play e focus p) = Inr (Future (Rejected err))))
   \<and> (play_fn (media p) \<and> enabled (ads p) \<and> active (ads p)
        \<and> Media_play \<in> set (new_actions p (snd (play e focus p)))
      \<longrightarrow> (\<exists>rest. new_actions p (snd (play e focus p)) = Ads_play # Media_play # rest))
   \<and> (play_fn (media p) \<and> fst (play e focus p) = Inr (Future Fulfilled) \<and> focus \<noteq> Some False
      \<longrightarrow> container p \<noteq> None \<and> last (trace (snd (play e focus p))) = Focus Container)"
proof (intro conjI)
  show "\<not> play_fn (media p) \<longrightarrow> play e focus p = (Inr Null, p)"
    by (simp add: play_def)
  show "play_fn (media p) \<and> enabled (ads p) \<and> active (ads p) \<and> ''play'' \<in> set (methods (ads p))
        \<and> \<not> throws e Ads_play \<and> \<not> throws e Media_play \<and> media_play_returns e = Some Fulfilled
        \<and> focus \<noteq> Some False \<and> container p \<noteq> None \<and> \<not> throws e (Focus Container)
      \<longrightarrow> play e focus p =
            (Inr (Future Fulfilled), p\<lparr>trace := trace p @ [Ads_play, Media_play, Focus Container]\<rparr>)"
    by (auto simp: play_def invoke_def ext_def log_def)
  show "play_fn (media p) \<and> enabled (ads p) \<and> active (ads p) \<and> ''play'' \<in> set (methods (ads p))
        \<and> \<not> throws e Ads_play \<and> \<not> throws e Media_play \<and> media_play_returns e = Some Fulfilled
        \<and> focus = Some False
      \<longrightarrow> play e focus p =
            (Inr (Future Fulfilled), p\<lparr>trace := trace p @ [Ads_play, Media_play]\<rparr>)"
    by (auto simp: play_def invoke_def ext_def log_def)
  show "play_fn (media p) \<and> \<not> (enabled (ads p) \<and> active (ads p))
        \<and> \<not> throws e Media_play \<and> media_play_returns e = Some Fulfilled
        \<and> focus \<noteq> Some False \<and> container p \<noteq> None \<and> \<not> throws e (Focus Container)
      \<longrightarrow> play e focus p =
            (Inr (Future Fulfilled), p\<lparr>trace := trace p @ [Media_play, Focus Container]\<rparr>)"
    by (auto simp: play_def invoke_def ext_def log_def)
  show "play_fn (media p) \<and> enabled (ads p) \<and> active (ads p) \<and> ''play'' \<in> set (methods (ads p))
      \<longrightarrow> (\<exists>rest. new_actions p (snd (play e focus p)) = Ads_play # rest)
          \<and> (\<not> throws e Ads_play \<longrightarrow>
               (\<exists>rest. new_actions p (snd (play e focus p)) = Ads_play # Media_play # rest))"
    by (auto simp: play_def invoke_def ext_def log_def new_actions_def
        split: option.splits settled.splits)
  show "play_fn (media p)
        \<and> (enabled (ads p) \<and> active (ads p) \<longrightarrow>
             ''play'' \<in> set (methods (ads p)) \<and> \<not> throws e Ads_play)
        \<and> \<not> throws e Media_play \<and> media_play_returns e = Some s
      \<longrightarrow> (\<exists>r. fst (play e focus p) = Inr (Future r))
          \<and> (\<forall>err. s = Rejected err \<longrightarrow> fst (play e focus p) = Inr (Future (Rejected err)))"
    by (auto simp: play_def invoke_def ext_def log_def
        split: option.splits settled.splits)
  show "play_fn (media p) \<and> enabled (ads p) \<and> active (ads p)
        \<and> Media_play \<in> set (new_actions p (snd (play e focus p)))
      \<longrightarrow> (\<exists>rest. new_actions p (snd (play e focus p)) = Ads_play # Media_play # rest)"
    by (auto simp: play_def invoke_def ext_def log_def new_actions_def
        split: option.splits settled.splits if_splits)
  show "play_fn (media p) \<and> fst (play e focus p) = Inr (Future Fulfilled) \<and> focus \<noteq> Some False
      \<longrightarrow> container p \<noteq> None \<and> last (trace (snd (play e focus p))) = Focus Container"
    by (auto simp: play_def invoke_def ext_def log_def new_actions_def
        split: option.splits settled.splits if_splits)
qed

text \<open>
  C4, at concrete inputs: an instance whose provider cannot play; the example instance, whose
  ads block is enabled and active, with \<^verbatim>\<open>focus\<close> omitted, true and false; and the same
  instance with the placeholder for the ads block.
\<close>

theorem play_contract_witness:
  "\<not> play_fn (media (demo_player\<lparr>media := video\<lparr>play_fn := False\<rparr>\<rparr>))
   \<and> play quiet None (demo_player\<lparr>media := video\<lparr>play_fn := False\<rparr>\<rparr>)
       = (Inr Null, demo_player\<lparr>media := video\<lparr>play_fn := False\<rparr>\<rparr>)
   \<and> play_fn (media demo_player) \<and> enabled (ads demo_player) \<and> active (ads demo_player)
   \<and> play quiet None demo_player
       = (Inr (Future Fulfilled),
          demo_player\<lparr>trace := trace demo_player @ [Ads_play, Media_play, Focus Container]\<rparr>)
   \<and> play quiet (Some True) demo_player
       = (Inr (Future Fulfilled),
          demo_player\<lparr>trace := trace demo_player @ [Ads_play, Media_play, Focus Container]\<rparr>)
   \<and> play quiet (Some False) demo_player
       = (Inr (Future Fulfilled),
          demo_player\<lparr>trace := trace demo_player @ [Ads_play, Media_play]\<rparr>)
   \<and> play quiet None (demo_player\<lparr>ads := placeholder\<rparr>)
       = (Inr (Future Fulfilled),
          demo_player\<lparr>ads := placeholder,
                       trace := trace demo_player @ [Media_play, Focus Container]\<rparr>)
   \<and> new_actions demo_player (snd (play quiet None demo_player))
       = [Ads_play, Media_play, Focus Container]"
proof -
  have facts: "play_fn (media demo_player)" "enabled (ads demo_player)" "active (ads demo_player)"
    "''play'' \<in> set (methods (ads demo_player))" "container demo_player \<noteq> None"
    "\<not> throws quiet Ads_play" "\<not> throws quiet Media_play" "\<not> throws quiet (Focus Container)"
    "media_play_returns quiet = Some Fulfilled"
    "\<not> play_fn (media (demo_player\<lparr>media := video\<lparr>play_fn := False\<rparr>\<rparr>))"
    "\<not> enabled (ads (demo_player\<lparr>ads := placeholder\<rparr>))"
    by (simp_all add: demo_player_def quiet_def video_def placeholder_def)
  have 1: "play quiet None (demo_player\<lparr>media := video\<lparr>play_fn := False\<rparr>\<rparr>)
       = (Inr Null, demo_player\<lparr>media := video\<lparr>play_fn := False\<rparr>\<rparr>)"
    using play_contract [of "demo_player\<lparr>media := video\<lparr>play_fn := False\<rparr>\<rparr>" quiet None] facts
    by blast
  have 2: "play quiet None demo_player
       = (Inr (Future Fulfilled),
          demo_player\<lparr>trace := trace demo_player @ [Ads_play, Media_play, Focus Container]\<rparr>)"
    using play_contract [of demo_player quiet None] facts by simp
  have 3: "play quiet (Some True) demo_player
       = (Inr (Future Fulfilled),
          demo_player\<lparr>trace := trace demo_player @ [Ads_play, Media_play, Focus Container]\<rparr>)"
    using play_contract [of demo_player quiet "Some True"] facts by simp
  have 4: "play quiet (Some False) demo_player
       = (Inr (Future Fulfilled),
          demo_player\<lparr>trace := trace demo_player @ [Ads_play, Media_play]\<rparr>)"
    using play_contract [of demo_player quiet "Some False"] facts by simp
  have 5: "play quiet None (demo_player\<lparr>ads := placeholder\<rparr>)
       = (Inr (Future Fulfilled),
          demo_player\<lparr>ads := placeholder,
                       trace := trace demo_player @ [Media_play, Focus Container]\<rparr>)"
    using play_contract [of "demo_player\<lparr>ads := placeholder\<rparr>" quiet None] facts by simp
  have 6: "new_actions demo_player (snd (play quiet None demo_player))
       = [Ads_play, Media_play, Focus Container]"
    unfolding 2 by (simp add: new_actions_def)
  show ?thesis using facts 1 2 3 4 5 6 by (intro conjI)
qed

text \<open>
  C5, on the instance built from the example inputs. \<^verbatim>\<open>setup\<close> constructs no subsystem for
  picture-in-picture or AirPlay, so \<^verbatim>\<open>this.pip\<close> and \<^verbatim>\<open>this.airplay\<close> are still the
  placeholders of the constructor, which have no \<^verbatim>\<open>toggle\<close>: both methods raise a
  \<^verbatim>\<open>TypeError\<close> and call nothing.
\<close>

theorem toggle_pip_airplay_raise:
  "construct quiet base_config base_config (Element video) None = Inr demo_player
   \<and> togglePip quiet (Some True) demo_player = (Some TypeError, demo_player)
   \<and> toggleAirplay quiet (Some True) demo_player = (Some TypeError, demo_player)"
  using construct_demo
  by (simp add: togglePip_def toggleAirplay_def invoke_def demo_player_def placeholder_def)

text \<open>
  C6, at concrete inputs. The getter reads the provider's \<^verbatim>\<open>source\<close>. The setter calls
  \<^verbatim>\<open>change\<close> on what the getter returns, that is on the provider's \<^verbatim>\<open>source\<close>, and the
  assignment of line 549 runs the setter too: with an element whose \<^verbatim>\<open>source\<close> is
  undefined, construction itself raises a \<^verbatim>\<open>TypeError\<close>.
\<close>

theorem source_setter_calls_provider_source:
  "construct quiet base_config base_config (Element native_video) None = Inl TypeError
   \<and> source_get demo_player = source (media demo_player)
   \<and> new_actions demo_player (snd (source_set quiet (Plain (JStr ''film.mp4'')) demo_player))
       = [Provider_source_change (Plain (JStr ''film.mp4''))]"
  by (simp add: construct_def resolve_config_def extend_objects_def fragment_def parse_fragment_def
      base_config_def quiet_def video_def native_video_def demo_player_def init_def setup_plyr_def
      wiring_def ext_def modify_def log_def set_ready_def setAttribute_def resolve_container_def
      add_class_def container_class_def setup_source_def source_set_def source_get_def invoke_def
      placeholder_def new_actions_def)

text \<open>
  C7 as stated fails: when \<^verbatim>\<open>ui.reset\<close> raises, the promise is rejected and the callback
  is not called.
\<close>

theorem destroy_callback_skipped:
  "fst (destroy reset_fails True demo_player) = Rejected (Thrown Ui_reset)
   \<and> Callback \<notin> set (new_actions demo_player (snd (destroy reset_fails True demo_player)))"
  by (simp add: destroy_def teardown_def ext_def modify_def log_def reset_fails_def quiet_def
      new_actions_def demo_player_def)

text \<open>
  C7, amended. When neither \<^verbatim>\<open>ui.reset\<close> nor \<^verbatim>\<open>unbindListeners\<close> raises, \<^verbatim>\<open>destroy\<close>
  performs the four teardown steps in order and then calls the callback, if one was given;
  when one of them raises, the promise is rejected and the callback is not called.
\<close>

theorem destroy_callback_order:
  "(\<not> throws e Ui_reset \<and> \<not> throws e Unbind_listeners \<longrightarrow>
      fst (destroy e callback p) = Fulfilled
      \<and> new_actions p (snd (destroy e callback p)) =
          [Ui_reset, Set_attribute Media ''data-plyr'' ''null'', Remove_attribute Media ''tabindex'',
           Unbind_listeners, Set_ready False] @ (if callback then [Callback] else []))
   \<and> (throws e Ui_reset \<or> throws e Unbind_listeners \<longrightarrow>
      fst (destroy e callback p) \<noteq> Fulfilled
      \<and> Callback \<notin> set (new_actions p (snd (destroy e callback p))))"
  by (auto simp: destroy_def teardown_def ext_def modify_def log_def set_ready_def
      setAttribute_def removeAttribute_def new_actions_def)

text \<open>
  C7, amended, at the example instance, without and with a failing step.
\<close>

theorem destroy_callback_order_witness:
  "\<not> throws quiet Ui_reset \<and> \<not> throws quiet Unbind_listeners
   \<and> fst (destroy quiet True demo_player) = Fulfilled
   \<and> new_actions demo_player (snd (destroy quiet True demo_player)) =
       [Ui_reset, Set_attribute Media ''data-plyr'' ''null'', Remove_attribute Media ''tabindex'',
        Unbind_listeners, Set_ready False, Callback]
   \<and> throws reset_fails Ui_reset
   \<and> fst (destroy reset_fails True demo_player) \<noteq> Fulfilled
   \<and> Callback \<notin> set (new_actions demo_player (snd (destroy reset_fails True demo_player)))"
  using destroy_callback_order [of quiet True demo_player]
    destroy_callback_order [of reset_fails True demo_player]
  by (simp add: quiet_def reset_fails_def)

text \<open>
  C8. When the provider has no \<^verbatim>\<open>pause\<close> function, or the instance is not playing,
  \<^verbatim>\<open>pause\<close> returns normally and leaves the whole instance, the provider and the history
  of calls included, as it was.
\<close>

theorem pause_noop:
  "\<not> pause_fn (media p) \<or> \<not> playing (media p) \<Longrightarrow> pause e p = (None, p)"
  by (auto simp: pause_def)

text \<open>
  C8, at the example instance, which is not playing, and at an instance that is playing on a
  provider without \<^verbatim>\<open>pause\<close>.
\<close>

theorem pause_noop_witness:
  "\<not> playing (media demo_player) \<and> pause quiet demo_player = (None, demo_player)
   \<and> \<not> pause_fn (media (demo_player\<lparr>media := video\<lparr>pause_fn := False, playing := True\<rparr>\<rparr>))
   \<and> pause quiet (demo_player\<lparr>media := video\<lparr>pause_fn := False, playing := True\<rparr>\<rparr>)
       = (None, demo_player\<lparr>media := video\<lparr>pause_fn := False, playing := True\<rparr>\<rparr>)"
  using pause_noop [of demo_player quiet]
    pause_noop [of "demo_player\<lparr>media := video\<lparr>pause_fn := False, playing := True\<rparr>\<rparr>" quiet]
  by (simp add: demo_player_def video_def)

text \<open>
  C9. When the target resolves to no element (the selector matches nothing or is invalid,
  or the collection is empty), the constructor raises and returns no instance.
\<close>

theorem construct_without_element_fails:
  "(\<forall>x. resolve_target e tgt \<noteq> Inr (Some x)) \<Longrightarrow>
     \<exists>err. construct e defaults static tgt options = Inl err"
  by (cases "resolve_target e tgt") (auto simp: construct_def Let_def split: option.splits)

text \<open>
  C9, for a selector that matches nothing.
\<close>

theorem construct_without_element_fails_witness:
  "(\<forall>x. resolve_target quiet (Selector ''#player'') \<noteq> Inr (Some x))
   \<and> (\<exists>err. construct quiet base_config base_config (Selector ''#player'') None = Inl err)"
  using construct_without_element_fails [of quiet "Selector ''#player''" base_config base_config None]
  by (simp add: quiet_def)

text \<open>
  C10. Assigning \<^verbatim>\<open>language\<close> and calling \<^verbatim>\<open>setCaptions\<close> with the same value have the
  same outcome and leave the same instance: each makes the one call \<^verbatim>\<open>captions.set\<close> with
  that value, raises exactly when that call raises, and changes nothing else.
\<close>

theorem language_setter_is_setCaptions:
  "language_set e language p = setCaptions e language p
   \<and> language_set e language p =
       (if throws e (Captions_set language) then Some (Thrown (Captions_set language)) else None,
        p\<lparr>trace := trace p @ [Captions_set language]\<rparr>)
   \<and> new_actions p (snd (language_set e language p)) = [Captions_set language]
   \<and> new_actions p (snd (setCaptions e language p)) = [Captions_set language]"
  by (simp add: language_set_def setCaptions_def ext_def log_def new_actions_def)

text \<open>
  C10, at the example instance: both record the one call \<^verbatim>\<open>captions.set\<close> with the language
  given.
\<close>

theorem language_setter_is_setCaptions_witness:
  "language_set quiet ''fr'' demo_player = setCaptions quiet ''fr'' demo_player
   \<and> setCaptions quiet ''fr'' demo_player
       = (None, demo_player\<lparr>trace := trace demo_player @ [Captions_set ''fr'']\<rparr>)
   \<and> new_actions demo_player (snd (language_set quiet ''fr'' demo_player)) = [Captions_set ''fr'']"
proof -
  have t: "\<not> throws quiet (Captions_set ''fr'')" by (simp add: quiet_def)
  show ?thesis
    using language_setter_is_setCaptions [of quiet "''fr''" demo_player] t by auto
qed

end
